theory Spec2Isabelle
  imports Complex_Main
begin

section \<open>Python values, strings and built-ins\<close>

text \<open>
  The values that travel through the two shared stores and into the JSON documents.
  A finite Python float is carried as the rational it denotes.
\<close>

datatype pyval =
    PNone
  | PBool bool
  | PInt int
  | PFloat rat
  | PStr string
  | PList "pyval list"
  | PDict "(string \<times> pyval) list"

text \<open>Truth value of an object, as \<^verbatim>\<open>if x\<close> and \<^verbatim>\<open>not x\<close> test it.\<close>

fun truthy :: "pyval \<Rightarrow> bool" where
  "truthy PNone = False"
| "truthy (PBool b) = b"
| "truthy (PInt n) = (n \<noteq> 0)"
| "truthy (PFloat r) = (r \<noteq> 0)"
| "truthy (PStr s) = (s \<noteq> [])"
| "truthy (PList xs) = (xs \<noteq> [])"
| "truthy (PDict kvs) = (kvs \<noteq> [])"

datatype pyerr = ValueError | TypeError | OverflowError

text \<open>
  The result of \<^verbatim>\<open>float(s)\<close> when it does not raise: a finite value, an infinity
  or a NaN.
\<close>

datatype pyfloat = Finite rat | PosInf | NegInf | NaN

text \<open>
  \<^verbatim>\<open>int(x)\<close> on a float: truncation towards zero; OverflowError on an infinity,
  ValueError on a NaN.
\<close>

definition trunc_rat :: "rat \<Rightarrow> int" where
  "trunc_rat r = (if 0 \<le> r then \<lfloor>r\<rfloor> else \<lceil>r\<rceil>)"

fun py_int :: "pyfloat \<Rightarrow> pyerr + int" where
  "py_int (Finite r) = Inr (trunc_rat r)"
| "py_int PosInf = Inl OverflowError"
| "py_int NegInf = Inl OverflowError"
| "py_int NaN = Inl ValueError"

text \<open>
  \<^verbatim>\<open>str.upper()\<close> and \<^verbatim>\<open>str.lower()\<close> on the ASCII letters; every other
  character is carried through as it is.
\<close>

definition upper_char :: "char \<Rightarrow> char" where
  "upper_char c =
     (let n = (of_char c :: nat) in if 97 \<le> n \<and> n \<le> 122 then char_of (n - 32) else c)"

definition lower_char :: "char \<Rightarrow> char" where
  "lower_char c =
     (let n = (of_char c :: nat) in if 65 \<le> n \<and> n \<le> 90 then char_of (n + 32) else c)"

definition py_upper :: "string \<Rightarrow> string" where
  "py_upper s = map upper_char s"

definition py_lower :: "string \<Rightarrow> string" where
  "py_lower s = map lower_char s"

text \<open>
  \<^verbatim>\<open>str.strip()\<close>: leading and trailing whitespace removed (the ASCII whitespace
  characters of \<^verbatim>\<open>str.isspace\<close>: 9 to 13, 28 to 32).
\<close>

definition is_space :: "char \<Rightarrow> bool" where
  "is_space c =
     (let n = (of_char c :: nat) in (9 \<le> n \<and> n \<le> 13) \<or> (28 \<le> n \<and> n \<le> 32))"

definition py_strip :: "string \<Rightarrow> string" where
  "py_strip s = rev (dropWhile is_space (rev (dropWhile is_space s)))"

text \<open>
  \<^verbatim>\<open>s.split(sep, 1)\<close> for a one-character separator: at most one split, at the
  first occurrence.
\<close>

definition split_once :: "char \<Rightarrow> string \<Rightarrow> string list" where
  "split_once sep s =
     (if sep \<in> set s
      then [takeWhile (\<lambda>c. c \<noteq> sep) s, tl (dropWhile (\<lambda>c. c \<noteq> sep) s)]
      else [s])"

text \<open>
  Case-insensitive equality of two strings, as the specification words the payload
  tests: the strings agree once both are lower-cased.
\<close>

definition caseless_eq :: "string \<Rightarrow> string \<Rightarrow> bool" where
  "caseless_eq s t = (py_lower s = py_lower t)"

section \<open>The shared stores and the module's environment\<close>

text \<open>
  The SharedConfigStore \<^verbatim>\<open>globalState.configDB\<close>: a key-value map keyed by
  (plugin name, setting name).
\<close>

type_synonym configDB = "(string \<times> string) \<Rightarrow> pyval option"

text \<open>
  Modelled from the spec: \<^verbatim>\<open>configDB.set(plugin, key, value)\<close>, a method of a class
  that is not part of this source file. It stores the value under the key of the plugin.
\<close>

definition configDB_set :: "string \<Rightarrow> string \<Rightarrow> pyval \<Rightarrow> configDB \<Rightarrow> configDB" where
  "configDB_set plugin_name k v db = db((plugin_name, k) \<mapsto> v)"

text \<open>
  Modelled from the spec: \<^verbatim>\<open>configDB.get(plugin, key, default)\<close>, of the same class.
  It answers the stored value, and the default when the key holds none.
\<close>

definition configDB_get :: "configDB \<Rightarrow> string \<Rightarrow> string \<Rightarrow> pyval \<Rightarrow> pyval" where
  "configDB_get db plugin_name k dflt = (case db (plugin_name, k) of None \<Rightarrow> dflt | Some v \<Rightarrow> v)"

text \<open>
  \<^verbatim>\<open>globalState.stateDict\<close> (the SharedRuntimeState), read-only here. The driver
  that writes it is not in this file. The entries this module computes with are typed
  after the defaults it reads them with (an integer of amps, an integer state id, two
  strings); the remaining telemetry is passed through to the state document as it is.
  \<open>None\<close> is an absent key, where \<^verbatim>\<open>stateDict.get(key, default)\<close> answers the
  default.
\<close>

record stateDict =
  app_version :: "string option"
  eo_overall_limit_current :: "int option"
  eo_charger_state :: "string option"
  eo_charger_state_id :: "int option"
  telemetry :: "string \<Rightarrow> pyval option"

definition dict_get :: "'a option \<Rightarrow> 'a \<Rightarrow> 'a" where
  "dict_get entry dflt = (case entry of None \<Rightarrow> dflt | Some v \<Rightarrow> v)"

text \<open>
  An outgoing call \<^verbatim>\<open>self.mqtt_client.publish(topic, payload, retain=...)\<close>. The
  payload is kept as the document that \<^verbatim>\<open>json.dumps\<close> serialises.
\<close>

record publish_call =
  pub_topic :: string
  pub_payload :: pyval
  pub_retain :: bool

text \<open>
  What the module takes from outside itself: the import flag, the two constants of
  \<^verbatim>\<open>globalState\<close> (integers of amps), the built-ins \<^verbatim>\<open>float\<close> and
  \<^verbatim>\<open>bytes.decode('utf-8')\<close> (\<open>None\<close> for UnicodeDecodeError), and whether a call of
  the client's \<^verbatim>\<open>publish\<close> raises, given the calls made before it (a transport
  error, or no client object at all).
\<close>

record env =
  MQTT_AVAILABLE :: bool
  MIN_CHARGING_CURRENT :: int
  MAX_CHARGING_CURRENT :: int
  py_float :: "string \<Rightarrow> pyerr + pyfloat"
  decode_utf8 :: "string \<Rightarrow> string option"
  publish_raises :: "publish_call list \<Rightarrow> publish_call \<Rightarrow> bool"

text \<open>
  Modelled from the spec: \<^verbatim>\<open>get_config\<close>, a method of the plugin superclass, which
  is not part of this source file. It reads the plugin's settings; they are typed as
  \<^verbatim>\<open>pluginParamSpec\<close> declares them, and \<^verbatim>\<open>get_config("device_id")\<close> is the
  field \<open>device_id\<close>.
\<close>

record config =
  enabled :: bool
  mqtt_host :: string
  mqtt_port :: int
  mqtt_username :: string
  mqtt_password :: string
  mqtt_discovery_prefix :: string
  device_name :: string
  device_id :: string
  publish_interval :: int

section \<open>Command handlers\<close>

definition handle_switch_command :: "string \<Rightarrow> configDB \<Rightarrow> configDB" where
  "handle_switch_command payload db =
     (let switch_on = (py_upper payload \<in> set [''ON'', ''TRUE'', ''1'']);
          db1 = configDB_set ''switch'' ''enabled'' (PBool True) db;
          db2 = configDB_set ''switch'' ''on'' (PBool switch_on) db1;
          db3 = configDB_set ''scheduler'' ''enabled'' (PBool False) db2
      in db3)"

definition handle_current_limit_command ::
    "env \<Rightarrow> stateDict \<Rightarrow> string \<Rightarrow> configDB \<Rightarrow> configDB" where
  "handle_current_limit_command E sd payload db =
     (case py_float E payload of
        Inl e \<Rightarrow> db
      | Inr f \<Rightarrow>
          (case py_int f of
             Inl e \<Rightarrow> db
           | Inr current_limit \<Rightarrow>
               (let max_allowed =
                      min (MAX_CHARGING_CURRENT E)
                          (dict_get (eo_overall_limit_current sd) (MAX_CHARGING_CURRENT E))
                in if \<not> (MIN_CHARGING_CURRENT E \<le> current_limit \<and> current_limit \<le> max_allowed)
                   then db
                   else
                     (let db1 = configDB_set ''switch'' ''amps'' (PInt current_limit) db;
                          db2 = configDB_set ''switch'' ''enabled'' (PBool True) db1;
                          db3 = configDB_set ''scheduler'' ''enabled'' (PBool False) db2
                      in db3))))"

definition handle_mode_command :: "string \<Rightarrow> configDB \<Rightarrow> configDB" where
  "handle_mode_command payload db =
     (let mode = py_lower payload in
      if mode = ''manual'' then
        configDB_set ''scheduler'' ''enabled'' (PBool False)
          (configDB_set ''switch'' ''enabled'' (PBool True) db)
      else if mode = ''schedule'' then
        configDB_set ''switch'' ''enabled'' (PBool False)
          (configDB_set ''scheduler'' ''enabled'' (PBool True) db)
      else if mode = ''off'' then
        configDB_set ''switch'' ''enabled'' (PBool False)
          (configDB_set ''scheduler'' ''enabled'' (PBool False) db)
      else db)"

definition handle_enable_plugin_command :: "string \<Rightarrow> configDB \<Rightarrow> configDB" where
  "handle_enable_plugin_command payload db =
     (if CHR '':'' \<notin> set payload then db
      else
        (case split_once CHR '':'' payload of
           [plugin_name, enabled_str] \<Rightarrow>
             (let enabled_flag = (py_lower enabled_str \<in> set [''true'', ''on'', ''1'', ''enabled''])
              in if plugin_name \<notin> set [''scheduler'', ''switch'', ''loadmanagement''] then db
                 else configDB_set plugin_name ''enabled'' (PBool enabled_flag) db)
         | _ \<Rightarrow> db))"

section \<open>The plugin object and the MQTT client\<close>

text \<open>
  The attributes of the plugin object, and a trace of what it asked of the MQTT client
  and of the thread library: every call of \<^verbatim>\<open>publish\<close> in order, those of them that
  raised (each is caught and logged), every call of \<^verbatim>\<open>subscribe\<close>, and the
  discovery threads started and not yet run.
\<close>

record plugin =
  connected :: bool
  last_publish :: rat
  discovery_sent :: bool
  publish_calls :: "publish_call list"
  publish_errors :: "publish_call list"
  subscribe_calls :: "string list"
  pending_discovery :: nat

text \<open>The attributes as \<^verbatim>\<open>__init__\<close> sets them.\<close>

definition init_plugin :: plugin where
  "init_plugin =
     \<lparr>connected = False, last_publish = 0, discovery_sent = False, publish_calls = [],
      publish_errors = [], subscribe_calls = [], pending_discovery = 0\<rparr>"

text \<open>
  \<^verbatim>\<open>try: self.mqtt_client.publish(...) except Exception: _LOGGER.error(...)\<close>
\<close>

definition try_publish :: "env \<Rightarrow> publish_call \<Rightarrow> plugin \<Rightarrow> plugin" where
  "try_publish E m p =
     (if publish_raises E (publish_calls p) m
      then p\<lparr>publish_calls := publish_calls p @ [m], publish_errors := publish_errors p @ [m]\<rparr>
      else p\<lparr>publish_calls := publish_calls p @ [m]\<rparr>)"

definition subscribe_to_commands :: "config \<Rightarrow> plugin \<Rightarrow> plugin" where
  "subscribe_to_commands cfg p =
     (if \<not> connected p then p
      else
        (let dev = device_id cfg;
             command_topics =
               [''openeo/'' @ dev @ ''/command/switch/set'',
                ''openeo/'' @ dev @ ''/command/current_limit/set'',
                ''openeo/'' @ dev @ ''/command/mode/set'',
                ''openeo/'' @ dev @ ''/command/enable_plugin/set'']
         in p\<lparr>subscribe_calls := subscribe_calls p @ command_topics\<rparr>))"

definition on_connect :: "config \<Rightarrow> int \<Rightarrow> plugin \<Rightarrow> plugin" where
  "on_connect cfg rc p =
     (if rc = 0 then
        (let p1 = p\<lparr>connected := True\<rparr>;
             p2 = subscribe_to_commands cfg p1
         in p2\<lparr>pending_discovery := pending_discovery p2 + 1\<rparr>)
      else p)"

definition on_disconnect :: "int \<Rightarrow> plugin \<Rightarrow> plugin" where
  "on_disconnect rc p = p\<lparr>connected := False, discovery_sent := False\<rparr>"

text \<open>An incoming message: its topic and its payload bytes.\<close>

record mqtt_message =
  msg_topic :: string
  msg_payload :: string

text \<open>The plugin object together with the configuration store it writes to.\<close>

record world =
  plug :: plugin
  cdb :: configDB

definition on_message :: "env \<Rightarrow> config \<Rightarrow> stateDict \<Rightarrow> mqtt_message \<Rightarrow> world \<Rightarrow> world" where
  "on_message E cfg sd msg w =
     (case decode_utf8 E (msg_payload msg) of
        None \<Rightarrow> w
      | Some text_payload \<Rightarrow>
          (let tp = msg_topic msg;
               pl = py_strip text_payload;
               dev = device_id cfg
           in if tp = ''openeo/'' @ dev @ ''/command/switch/set'' then
                w\<lparr>cdb := handle_switch_command pl (cdb w)\<rparr>
              else if tp = ''openeo/'' @ dev @ ''/command/current_limit/set'' then
                w\<lparr>cdb := handle_current_limit_command E sd pl (cdb w)\<rparr>
              else if tp = ''openeo/'' @ dev @ ''/command/mode/set'' then
                w\<lparr>cdb := handle_mode_command pl (cdb w)\<rparr>
              else if tp = ''openeo/'' @ dev @ ''/command/enable_plugin/set'' then
                w\<lparr>cdb := handle_enable_plugin_command pl (cdb w)\<rparr>
              else w))"

section \<open>Discovery\<close>

definition get_device_info :: "config \<Rightarrow> stateDict \<Rightarrow> pyval" where
  "get_device_info cfg sd =
     PDict [(''identifiers'', PList [PStr (device_id cfg)]),
            (''name'', PStr (device_name cfg)),
            (''manufacturer'', PStr ''OpenEO''),
            (''model'', PStr ''EV Charger Controller''),
            (''sw_version'', PStr (dict_get (app_version sd) ''unknown''))]"

text \<open>
  A catalog entry: the four keys every entry has, and the optional keys it defines.
\<close>

record entity =
  ent_component :: string
  ent_object_id :: string
  ent_name :: string
  ent_state_topic :: string
  ent_fields :: "(string \<times> pyval) list"

definition sensors :: "string \<Rightarrow> entity list" where
  "sensors dev =
     [\<lparr>ent_component = ''sensor'', ent_object_id = ''charger_state'',
       ent_name = ''Charger State'', ent_state_topic = ''openeo/'' @ dev @ ''/state'',
       ent_fields = [(''value_template'', PStr ''{{ value_json.charger_state }}''),
                     (''icon'', PStr ''mdi:ev-station'')]\<rparr>,
      \<lparr>ent_component = ''sensor'', ent_object_id = ''amps_requested'',
       ent_name = ''Amps Requested'', ent_state_topic = ''openeo/'' @ dev @ ''/state'',
       ent_fields = [(''value_template'', PStr ''{{ value_json.amps_requested }}''),
                     (''unit_of_measurement'', PStr ''A''),
                     (''device_class'', PStr ''current''),
                     (''icon'', PStr ''mdi:current-ac'')]\<rparr>,
      \<lparr>ent_component = ''sensor'', ent_object_id = ''amps_limit'',
       ent_name = ''Amps Limit'', ent_state_topic = ''openeo/'' @ dev @ ''/state'',
       ent_fields = [(''value_template'', PStr ''{{ value_json.amps_limit }}''),
                     (''unit_of_measurement'', PStr ''A''),
                     (''device_class'', PStr ''current''),
                     (''icon'', PStr ''mdi:current-ac'')]\<rparr>,
      \<lparr>ent_component = ''sensor'', ent_object_id = ''power_delivered'',
       ent_name = ''Power Delivered'', ent_state_topic = ''openeo/'' @ dev @ ''/state'',
       ent_fields = [(''value_template'', PStr ''{{ value_json.power_delivered }}''),
                     (''unit_of_measurement'', PStr ''kW''),
                     (''device_class'', PStr ''power''),
                     (''icon'', PStr ''mdi:flash'')]\<rparr>,
      \<lparr>ent_component = ''sensor'', ent_object_id = ''power_requested'',
       ent_name = ''Power Requested'', ent_state_topic = ''openeo/'' @ dev @ ''/state'',
       ent_fields = [(''value_template'', PStr ''{{ value_json.power_requested }}''),
                     (''unit_of_measurement'', PStr ''kW''),
                     (''device_class'', PStr ''power''),
                     (''icon'', PStr ''mdi:flash-outline'')]\<rparr>,
      \<lparr>ent_component = ''sensor'', ent_object_id = ''voltage'',
       ent_name = ''Voltage'', ent_state_topic = ''openeo/'' @ dev @ ''/state'',
       ent_fields = [(''value_template'', PStr ''{{ value_json.voltage }}''),
                     (''unit_of_measurement'', PStr ''V''),
                     (''device_class'', PStr ''voltage''),
                     (''icon'', PStr ''mdi:lightning-bolt'')]\<rparr>,
      \<lparr>ent_component = ''sensor'', ent_object_id = ''frequency'',
       ent_name = ''Mains Frequency'', ent_state_topic = ''openeo/'' @ dev @ ''/state'',
       ent_fields = [(''value_template'', PStr ''{{ value_json.frequency }}''),
                     (''unit_of_measurement'', PStr ''Hz''),
                     (''device_class'', PStr ''frequency''),
                     (''icon'', PStr ''mdi:sine-wave'')]\<rparr>,
      \<lparr>ent_component = ''sensor'', ent_object_id = ''current_site'',
       ent_name = ''Site Current'', ent_state_topic = ''openeo/'' @ dev @ ''/state'',
       ent_fields = [(''value_template'', PStr ''{{ value_json.current_site }}''),
                     (''unit_of_measurement'', PStr ''A''),
                     (''device_class'', PStr ''current''),
                     (''icon'', PStr ''mdi:home-lightning-bolt'')]\<rparr>,
      \<lparr>ent_component = ''sensor'', ent_object_id = ''current_vehicle'',
       ent_name = ''Vehicle Current'', ent_state_topic = ''openeo/'' @ dev @ ''/state'',
       ent_fields = [(''value_template'', PStr ''{{ value_json.current_vehicle }}''),
                     (''unit_of_measurement'', PStr ''A''),
                     (''device_class'', PStr ''current''),
                     (''icon'', PStr ''mdi:car-electric'')]\<rparr>,
      \<lparr>ent_component = ''sensor'', ent_object_id = ''current_solar'',
       ent_name = ''Solar Current'', ent_state_topic = ''openeo/'' @ dev @ ''/state'',
       ent_fields = [(''value_template'', PStr ''{{ value_json.current_solar }}''),
                     (''unit_of_measurement'', PStr ''A''),
                     (''device_class'', PStr ''current''),
                     (''icon'', PStr ''mdi:solar-power'')]\<rparr>,
      \<lparr>ent_component = ''binary_sensor'', ent_object_id = ''vehicle_connected'',
       ent_name = ''Vehicle Connected'', ent_state_topic = ''openeo/'' @ dev @ ''/state'',
       ent_fields = [(''value_template'', PStr ''{{ value_json.vehicle_connected }}''),
                     (''payload_on'', PStr ''true''),
                     (''payload_off'', PStr ''false''),
                     (''device_class'', PStr ''connectivity''),
                     (''icon'', PStr ''mdi:car-connected'')]\<rparr>,
      \<lparr>ent_component = ''binary_sensor'', ent_object_id = ''charging_active'',
       ent_name = ''Charging Active'', ent_state_topic = ''openeo/'' @ dev @ ''/state'',
       ent_fields = [(''value_template'', PStr ''{{ value_json.charging_active }}''),
                     (''payload_on'', PStr ''true''),
                     (''payload_off'', PStr ''false''),
                     (''device_class'', PStr ''battery_charging''),
                     (''icon'', PStr ''mdi:battery-charging'')]\<rparr>]"

definition control_entities :: "env \<Rightarrow> stateDict \<Rightarrow> string \<Rightarrow> entity list" where
  "control_entities E sd dev =
     (let max_allowed_current =
            min (MAX_CHARGING_CURRENT E)
                (dict_get (eo_overall_limit_current sd) (MAX_CHARGING_CURRENT E))
      in
      [\<lparr>ent_component = ''switch'', ent_object_id = ''charger_switch'',
        ent_name = ''Charger Switch'', ent_state_topic = ''openeo/'' @ dev @ ''/state'',
        ent_fields =
          [(''command_topic'', PStr (''openeo/'' @ dev @ ''/command/switch/set'')),
           (''value_template'',
              PStr ''{{ 'ON' if (value_json.switch_enabled and value_json.switch_on) else 'OFF' }}''),
           (''payload_on'', PStr ''ON''),
           (''payload_off'', PStr ''OFF''),
           (''icon'', PStr ''mdi:ev-station''),
           (''device_class'', PStr ''switch'')]\<rparr>,
       \<lparr>ent_component = ''number'', ent_object_id = ''current_limit'',
        ent_name = ''Current Limit'', ent_state_topic = ''openeo/'' @ dev @ ''/state'',
        ent_fields =
          [(''command_topic'', PStr (''openeo/'' @ dev @ ''/command/current_limit/set'')),
           (''value_template'', PStr ''{{ value_json.amps_limit }}''),
           (''min'', PInt (MIN_CHARGING_CURRENT E)),
           (''max'', PInt max_allowed_current),
           (''step'', PInt 1),
           (''unit_of_measurement'', PStr ''A''),
           (''device_class'', PStr ''current''),
           (''icon'', PStr ''mdi:current-ac'')]\<rparr>,
       \<lparr>ent_component = ''select'', ent_object_id = ''charger_mode'',
        ent_name = ''Charger Mode'', ent_state_topic = ''openeo/'' @ dev @ ''/state'',
        ent_fields =
          [(''command_topic'', PStr (''openeo/'' @ dev @ ''/command/mode/set'')),
           (''value_template'',
              PStr ''{{ 'manual' if value_json.mode == 'manual' else ('schedule' if value_json.mode == 'schedule' else 'off') }}''),
           (''options'', PList [PStr ''manual'', PStr ''schedule'', PStr ''off'']),
           (''icon'', PStr ''mdi:cog'')]\<rparr>])"

text \<open>\<^verbatim>\<open>d[k] = v\<close> on a dict that keeps insertion order.\<close>

fun dict_set :: "(string \<times> pyval) list \<Rightarrow> string \<Rightarrow> pyval \<Rightarrow> (string \<times> pyval) list" where
  "dict_set [] k v = [(k, v)]"
| "dict_set ((k', v') # kvs) k v = (if k' = k then (k, v) # kvs else (k', v') # dict_set kvs k v)"

definition optional_fields :: "string list" where
  "optional_fields =
     [''value_template'', ''unit_of_measurement'', ''device_class'', ''icon'', ''payload_on'',
      ''payload_off'', ''command_topic'', ''min'', ''max'', ''step'', ''options'']"

text \<open>
  The body of the loop over \<^verbatim>\<open>all_entities\<close>: the discovery document of an entry,
  then its publication.
\<close>

definition entity_config :: "string \<Rightarrow> pyval \<Rightarrow> entity \<Rightarrow> (string \<times> pyval) list" where
  "entity_config dev device_info e =
     (let config0 =
            [(''name'', PStr (ent_name e)),
             (''unique_id'', PStr (dev @ ''_'' @ ent_object_id e)),
             (''state_topic'', PStr (ent_state_topic e)),
             (''device'', device_info)]
      in fold (\<lambda>field c. case map_of (ent_fields e) field of
                               None \<Rightarrow> c
                             | Some v \<Rightarrow> dict_set c field v)
              optional_fields config0)"

definition discovery_message :: "string \<Rightarrow> string \<Rightarrow> pyval \<Rightarrow> entity \<Rightarrow> publish_call" where
  "discovery_message discovery_prefix dev device_info e =
     (let config1 = entity_config dev device_info e;
          tp = discovery_prefix @ ''/'' @ ent_component e @ ''/'' @ dev @ ''/''
                 @ ent_object_id e @ ''/config''
      in \<lparr>pub_topic = tp, pub_payload = PDict config1, pub_retain = True\<rparr>)"

definition publish_entity :: "env \<Rightarrow> string \<Rightarrow> string \<Rightarrow> pyval \<Rightarrow> entity \<Rightarrow> plugin \<Rightarrow> plugin" where
  "publish_entity E discovery_prefix dev device_info e p =
     try_publish E (discovery_message discovery_prefix dev device_info e) p"

definition send_discovery :: "env \<Rightarrow> config \<Rightarrow> stateDict \<Rightarrow> plugin \<Rightarrow> plugin" where
  "send_discovery E cfg sd p =
     (if \<not> connected p then p
      else
        (let device_info = get_device_info cfg sd;
             discovery_prefix = mqtt_discovery_prefix cfg;
             dev = device_id cfg;
             all_entities = sensors dev @ control_entities E sd dev;
             p1 = fold (publish_entity E discovery_prefix dev device_info) all_entities p
         in p1\<lparr>discovery_sent := True\<rparr>))"

section \<open>State publication and the poll hook\<close>

text \<open>
  The document \<^verbatim>\<open>_publish_state\<close> builds; \<open>now\<close> is the reading of
  \<^verbatim>\<open>time.time()\<close> taken for the timestamp.
\<close>

definition state_payload :: "stateDict \<Rightarrow> configDB \<Rightarrow> rat \<Rightarrow> (string \<times> pyval) list" where
  "state_payload sd db now =
     (let charger_state = dict_get (eo_charger_state sd) [];
          charger_state_id = dict_get (eo_charger_state_id sd) 0;
          vehicle_connected = (charger_state_id \<in> set [7, 8, 9, 10, 11, 12, 13, 14, 15, 16]);
          charging_active = (charger_state_id \<in> set [11, 12, 13, 14]);
          switch_enabled = configDB_get db ''switch'' ''enabled'' (PBool False);
          scheduler_enabled = configDB_get db ''scheduler'' ''enabled'' (PBool False);
          current_mode =
            (if truthy switch_enabled \<and> \<not> truthy scheduler_enabled then ''manual''
             else if truthy scheduler_enabled \<and> \<not> truthy switch_enabled then ''schedule''
             else ''off'')
      in
      [(''charger_state'', PStr charger_state),
       (''charger_state_id'', PInt charger_state_id),
       (''amps_requested'', dict_get (telemetry sd ''eo_amps_requested'') (PInt 0)),
       (''amps_limit'', dict_get (telemetry sd ''eo_amps_limit'') (PInt 0)),
       (''power_delivered'', dict_get (telemetry sd ''eo_power_delivered'') (PInt 0)),
       (''power_requested'', dict_get (telemetry sd ''eo_power_requested'') (PInt 0)),
       (''voltage'', dict_get (telemetry sd ''eo_live_voltage'') (PInt 0)),
       (''frequency'', dict_get (telemetry sd ''eo_mains_frequency'') (PInt 0)),
       (''current_site'', dict_get (telemetry sd ''eo_current_site'') (PInt 0)),
       (''current_vehicle'', dict_get (telemetry sd ''eo_current_vehicle'') (PInt 0)),
       (''current_solar'', dict_get (telemetry sd ''eo_current_solar'') (PInt 0)),
       (''vehicle_connected'', PStr (if vehicle_connected then ''true'' else ''false'')),
       (''charging_active'', PStr (if charging_active then ''true'' else ''false'')),
       (''mode'', PStr current_mode),
       (''switch_on'', configDB_get db ''switch'' ''on'' (PBool False)),
       (''switch_enabled'', configDB_get db ''switch'' ''enabled'' (PBool False)),
       (''serial_errors'', dict_get (telemetry sd ''eo_serial_errors'') (PInt 0)),
       (''app_version'', PStr (dict_get (app_version sd) ''unknown'')),
       (''timestamp'', PInt (trunc_rat now))])"

definition publish_state :: "env \<Rightarrow> config \<Rightarrow> stateDict \<Rightarrow> configDB \<Rightarrow> rat \<Rightarrow> plugin \<Rightarrow> plugin" where
  "publish_state E cfg sd db now p =
     (if \<not> connected p then p
      else
        (let dev = device_id cfg;
             tp = ''openeo/'' @ dev @ ''/state''
         in try_publish E
              \<lparr>pub_topic = tp, pub_payload = PDict (state_payload sd db now), pub_retain = False\<rparr> p))"

text \<open>
  \<^verbatim>\<open>poll\<close>: \<open>current_time\<close> is the reading of \<^verbatim>\<open>time.time()\<close> at its start,
  \<open>now\<close> the later reading inside \<^verbatim>\<open>_publish_state\<close>. Starting the discovery
  thread is recorded; its body runs as an event of its own. The result pairs the plugin
  with the returned value.
\<close>

definition poll ::
    "env \<Rightarrow> config \<Rightarrow> stateDict \<Rightarrow> configDB \<Rightarrow> rat \<Rightarrow> rat \<Rightarrow> plugin \<Rightarrow> plugin \<times> int" where
  "poll E cfg sd db current_time now p =
     (if \<not> MQTT_AVAILABLE E \<or> \<not> enabled cfg then (p, 0)
      else
        (let p1 = (if connected p \<and> \<not> discovery_sent p
                   then p\<lparr>pending_discovery := pending_discovery p + 1\<rparr> else p);
             p2 = (if current_time - last_publish p1 \<ge> of_int (publish_interval cfg)
                   then (publish_state E cfg sd db now p1)\<lparr>last_publish := current_time\<rparr>
                   else p1)
         in (p2, 0)))"

section \<open>Events\<close>

text \<open>
  Everything that can happen to the plugin: the three client callbacks, the body of a
  started discovery thread, and a call of the poll hook.
\<close>

datatype event =
    Connect int
  | Disconnect int
  | Message mqtt_message
  | RunDiscovery
  | Poll rat rat

fun step :: "env \<Rightarrow> config \<Rightarrow> stateDict \<Rightarrow> event \<Rightarrow> world \<Rightarrow> world" where
  "step E cfg sd (Connect rc) w = w\<lparr>plug := on_connect cfg rc (plug w)\<rparr>"
| "step E cfg sd (Disconnect rc) w = w\<lparr>plug := on_disconnect rc (plug w)\<rparr>"
| "step E cfg sd (Message msg) w = on_message E cfg sd msg w"
| "step E cfg sd RunDiscovery w =
     (if pending_discovery (plug w) = 0 then w
      else w\<lparr>plug := send_discovery E cfg sd
                        ((plug w)\<lparr>pending_discovery := pending_discovery (plug w) - 1\<rparr>)\<rparr>)"
| "step E cfg sd (Poll current_time now) w =
     w\<lparr>plug := fst (poll E cfg sd (cdb w) current_time now (plug w))\<rparr>"

section \<open>Concrete instances for evaluation\<close>

text \<open>
  An instance of the built-in \<^verbatim>\<open>float\<close> on which the handlers can be evaluated. It
  reads a non-empty string of ASCII decimal digits as that number (exact below 2 to the
  53), and \<^verbatim>\<open>inf\<close> and \<^verbatim>\<open>nan\<close> as Python does. On any other string it answers
  ValueError: that is Python's answer for \<^verbatim>\<open>abc\<close>, the string it is applied to below,
  and not for every string (\<^verbatim>\<open>1.5\<close>, \<^verbatim>\<open>1e3\<close>). The theorems are proved for
  every \<open>py_float\<close>.
\<close>

definition digits_value :: "string \<Rightarrow> nat option" where
  "digits_value s =
     (if s \<noteq> [] \<and> list_all (\<lambda>c. 48 \<le> (of_char c :: nat) \<and> (of_char c :: nat) \<le> 57) s
      then Some (foldl (\<lambda>acc c. 10 * acc + (of_char c - 48)) 0 s)
      else None)"

definition float_example :: "string \<Rightarrow> pyerr + pyfloat" where
  "float_example s =
     (if s = ''inf'' then Inr PosInf
      else if s = ''nan'' then Inr NaN
      else case digits_value s of
             Some n \<Rightarrow> Inr (Finite (of_nat n))
           | None \<Rightarrow> Inl ValueError)"

text \<open>
  The environment of the specification's examples: limits 6 and 32, a client whose
  \<^verbatim>\<open>publish\<close> never raises, and ASCII payloads, which decode to themselves.
\<close>

definition env_example :: env where
  "env_example =
     \<lparr>MQTT_AVAILABLE = True, MIN_CHARGING_CURRENT = 6, MAX_CHARGING_CURRENT = 32,
      py_float = float_example, decode_utf8 = Some, publish_raises = (\<lambda>calls m. False)\<rparr>"

text \<open>The same environment with a client whose \<^verbatim>\<open>publish\<close> always raises.\<close>

definition env_failing :: env where
  "env_failing = env_example\<lparr>publish_raises := (\<lambda>calls m. True)\<rparr>"

definition stateDict_empty :: stateDict where
  "stateDict_empty =
     \<lparr>app_version = None, eo_overall_limit_current = None, eo_charger_state = None,
      eo_charger_state_id = None, telemetry = Map.empty\<rparr>"

text \<open>A plugin whose client has connected.\<close>

definition plugin_connected :: plugin where
  "plugin_connected = init_plugin\<lparr>connected := True\<rparr>"

text \<open>A freshly constructed plugin beside an empty configuration store.\<close>

definition world_example :: world where
  "world_example = \<lparr>plug = init_plugin, cdb = Map.empty\<rparr>"

text \<open>The settings at their defaults, with the module enabled.\<close>

definition config_example :: config where
  "config_example =
     \<lparr>enabled = True, mqtt_host = ''localhost'', mqtt_port = 1883, mqtt_username = [],
      mqtt_password = [], mqtt_discovery_prefix = ''homeassistant'',
      device_name = ''OpenEO Charger'', device_id = ''openeo_charger_1'',
      publish_interval = 5\<rparr>"

section \<open>Strings: case mapping and splitting\<close>

lemma of_char_nat_lt: "(of_char c :: nat) < 256"
  by (cases c) simp

lemma lower_upper_char: "lower_char (upper_char c) = lower_char c"
  using of_char_nat_lt [of c]
  by (auto simp add: lower_char_def upper_char_def Let_def)

lemma upper_lower_char: "upper_char (lower_char c) = upper_char c"
  using of_char_nat_lt [of c]
  by (auto simp add: lower_char_def upper_char_def Let_def)

lemma py_lower_upper: "py_lower (py_upper s) = py_lower s"
  by (simp add: py_lower_def py_upper_def lower_upper_char)

lemma py_upper_lower: "py_upper (py_lower s) = py_upper s"
  by (simp add: py_lower_def py_upper_def upper_lower_char)

text \<open>
  Comparing the upper-cased (or the lower-cased) payload with a literal already in that
  case is the case-insensitive comparison with the literal.
\<close>

lemma upper_eq_iff_caseless:
  assumes "py_upper t = t"
  shows "py_upper s = t \<longleftrightarrow> caseless_eq s t"
proof
  assume "py_upper s = t"
  then have "py_lower (py_upper s) = py_lower t" by simp
  then show "caseless_eq s t" by (simp add: py_lower_upper caseless_eq_def)
next
  assume "caseless_eq s t"
  then have "py_upper (py_lower s) = py_upper (py_lower t)" by (simp add: caseless_eq_def)
  then show "py_upper s = t" using assms by (simp add: py_upper_lower)
qed

lemma lower_eq_iff_caseless:
  assumes "py_lower t = t"
  shows "py_lower s = t \<longleftrightarrow> caseless_eq s t"
  using assms by (simp add: caseless_eq_def)

lemmas char_eval =
  upper_char_def lower_char_def py_upper_def py_lower_def char_of_def bit_0 bit_Suc

lemma upper_literals:
  "py_upper ''ON'' = ''ON''" "py_upper ''TRUE'' = ''TRUE''" "py_upper ''1'' = ''1''"
  by (simp_all add: char_eval)

lemma lower_literals:
  "py_lower ''true'' = ''true''" "py_lower ''on'' = ''on''" "py_lower ''1'' = ''1''"
  "py_lower ''enabled'' = ''enabled''"
  by (simp_all add: char_eval)

lemma split_once_colon:
  "CHR '':'' \<notin> set nm \<Longrightarrow> split_once CHR '':'' (nm @ CHR '':'' # tok) = [nm, tok]"
proof -
  assume "CHR '':'' \<notin> set nm"
  then have all: "\<And>x. x \<in> set nm \<Longrightarrow> x \<noteq> CHR '':''" by auto
  have "takeWhile (\<lambda>c. c \<noteq> CHR '':'') (nm @ CHR '':'' # tok) = nm"
    using all by simp
  moreover have "dropWhile (\<lambda>c. c \<noteq> CHR '':'') (nm @ CHR '':'' # tok) = CHR '':'' # tok"
    using all by simp
  ultimately show ?thesis by (simp add: split_once_def)
qed

lemma float_example_evals:
  "float_example ''15'' = Inr (Finite 15)"
  "float_example ''100'' = Inr (Finite 100)"
  "float_example ''abc'' = Inl ValueError"
  "float_example ''inf'' = Inr PosInf"
  by (simp_all add: float_example_def digits_value_def)

lemma trunc_rat_evals: "trunc_rat 15 = 15" "trunc_rat 100 = 100"
  by (simp_all add: trunc_rat_def)

section \<open>Command handling\<close>

text \<open>
  C1 (current_limit/set). The payload is read by \<^verbatim>\<open>float\<close> and truncated to an
  integer. When that integer lies within MIN_CHARGING_CURRENT and the smaller of
  MAX_CHARGING_CURRENT and the overall limit of the shared state (MAX_CHARGING_CURRENT
  when the state has none), the handler sets switch.amps to it, switch.enabled to true
  and scheduler.enabled to false. When the integer is out of that range, when the payload
  does not parse, and when it parses to an infinity or a NaN (which have no truncation),
  the configuration store is left as it was: the value is rejected, not clamped.
\<close>

theorem current_limit_command_effect:
  "(py_float E pl = Inr (Finite r)
      \<and> MIN_CHARGING_CURRENT E \<le> trunc_rat r
      \<and> trunc_rat r \<le> min (MAX_CHARGING_CURRENT E)
                          (dict_get (eo_overall_limit_current sd) (MAX_CHARGING_CURRENT E))
     \<longrightarrow> handle_current_limit_command E sd pl db =
           db((''switch'', ''amps'') \<mapsto> PInt (trunc_rat r),
              (''switch'', ''enabled'') \<mapsto> PBool True,
              (''scheduler'', ''enabled'') \<mapsto> PBool False))
   \<and> (py_float E pl = Inr (Finite r)
      \<and> \<not> (MIN_CHARGING_CURRENT E \<le> trunc_rat r
           \<and> trunc_rat r \<le> min (MAX_CHARGING_CURRENT E)
                          (dict_get (eo_overall_limit_current sd) (MAX_CHARGING_CURRENT E)))
     \<longrightarrow> handle_current_limit_command E sd pl db = db)
   \<and> (py_float E pl = Inl e \<longrightarrow> handle_current_limit_command E sd pl db = db)
   \<and> (py_float E pl \<in> {Inr PosInf, Inr NegInf, Inr NaN}
     \<longrightarrow> handle_current_limit_command E sd pl db = db)"
  by (auto simp add: handle_current_limit_command_def configDB_set_def Let_def)

theorem current_limit_command_effect_witness:
  "handle_current_limit_command env_example stateDict_empty ''15'' Map.empty =
     [(''switch'', ''amps'') \<mapsto> PInt 15, (''switch'', ''enabled'') \<mapsto> PBool True,
      (''scheduler'', ''enabled'') \<mapsto> PBool False]
   \<and> handle_current_limit_command env_example stateDict_empty ''100'' Map.empty = Map.empty
   \<and> handle_current_limit_command env_example stateDict_empty ''abc'' Map.empty = Map.empty
   \<and> handle_current_limit_command env_example stateDict_empty ''inf'' Map.empty = Map.empty"
  using current_limit_command_effect [of env_example "''15''" 15 stateDict_empty Map.empty]
    current_limit_command_effect [of env_example "''100''" 100 stateDict_empty Map.empty]
    current_limit_command_effect [of env_example "''abc''" _ stateDict_empty Map.empty ValueError]
    current_limit_command_effect [of env_example "''inf''" _ stateDict_empty Map.empty]
  by (simp add: env_example_def stateDict_empty_def float_example_evals trunc_rat_evals
        dict_get_def)

text \<open>
  C2 (switch/set). For every payload the handler sets switch.enabled to true and
  scheduler.enabled to false, and sets switch.on to true exactly when the payload equals
  ON, TRUE or 1 without regard to case, and to false for every other payload; all three
  keys are written whatever the payload is.
\<close>

theorem switch_command_effect:
  "handle_switch_command pl db =
     db((''switch'', ''enabled'') \<mapsto> PBool True,
        (''switch'', ''on'') \<mapsto>
           PBool (caseless_eq pl ''ON'' \<or> caseless_eq pl ''TRUE'' \<or> caseless_eq pl ''1''),
        (''scheduler'', ''enabled'') \<mapsto> PBool False)"
  by (simp add: handle_switch_command_def configDB_set_def Let_def
        upper_eq_iff_caseless [OF upper_literals(1)]
        upper_eq_iff_caseless [OF upper_literals(2)]
        upper_eq_iff_caseless [OF upper_literals(3)])

theorem switch_command_effect_witness:
  "handle_switch_command ''on'' Map.empty (''switch'', ''on'') = Some (PBool True)
   \<and> handle_switch_command ''off'' Map.empty (''switch'', ''on'') = Some (PBool False)
   \<and> handle_switch_command ''off'' Map.empty (''switch'', ''enabled'') = Some (PBool True)
   \<and> handle_switch_command ''off'' Map.empty (''scheduler'', ''enabled'') = Some (PBool False)"
  using switch_command_effect [of "''on''" Map.empty] switch_command_effect [of "''off''" Map.empty]
  by (simp add: caseless_eq_def char_eval)

text \<open>
  C4 (mode/set). The payload is lower-cased. \<^verbatim>\<open>manual\<close> sets switch.enabled to true and
  scheduler.enabled to false; \<^verbatim>\<open>schedule\<close> sets scheduler.enabled to true and
  switch.enabled to false; \<^verbatim>\<open>off\<close> sets both to false; every other payload leaves the
  configuration store as it was.
\<close>

theorem mode_command_effect:
  "handle_mode_command pl db =
     (if py_lower pl = ''manual'' then
        db((''switch'', ''enabled'') \<mapsto> PBool True, (''scheduler'', ''enabled'') \<mapsto> PBool False)
      else if py_lower pl = ''schedule'' then
        db((''scheduler'', ''enabled'') \<mapsto> PBool True, (''switch'', ''enabled'') \<mapsto> PBool False)
      else if py_lower pl = ''off'' then
        db((''scheduler'', ''enabled'') \<mapsto> PBool False, (''switch'', ''enabled'') \<mapsto> PBool False)
      else db)"
  by (simp add: handle_mode_command_def configDB_set_def Let_def)

theorem mode_command_effect_witness:
  "handle_mode_command ''Schedule'' Map.empty =
     [(''scheduler'', ''enabled'') \<mapsto> PBool True, (''switch'', ''enabled'') \<mapsto> PBool False]
   \<and> handle_mode_command ''bogus'' Map.empty = Map.empty"
  using mode_command_effect [of "''Schedule''" Map.empty] mode_command_effect [of "''bogus''" Map.empty]
  by (simp add: char_eval)

text \<open>
  C5 (enable_plugin/set). A payload with no colon changes nothing. Otherwise the payload
  is split at its first colon into a plugin name and a token; a name outside the
  allow-list scheduler, switch, loadmanagement changes nothing; for an allowed name, the
  key enabled of that plugin is set to true exactly when the token equals true, on, 1 or
  enabled without regard to case, and to false otherwise.
\<close>

theorem enable_plugin_command_effect:
  "(CHR '':'' \<notin> set pl \<longrightarrow> handle_enable_plugin_command pl db = db)
   \<and> (CHR '':'' \<notin> set nm \<longrightarrow>
        handle_enable_plugin_command (nm @ '':'' @ tok) db =
          (if nm \<in> {''scheduler'', ''switch'', ''loadmanagement''}
           then db((nm, ''enabled'') \<mapsto>
                  PBool (caseless_eq tok ''true'' \<or> caseless_eq tok ''on''
                         \<or> caseless_eq tok ''1'' \<or> caseless_eq tok ''enabled''))
           else db))"
proof (intro conjI impI)
  assume "CHR '':'' \<notin> set pl"
  then show "handle_enable_plugin_command pl db = db"
    by (simp add: handle_enable_plugin_command_def)
next
  assume nm: "CHR '':'' \<notin> set nm"
  have sp: "split_once CHR '':'' (nm @ '':'' @ tok) = [nm, tok]"
    using split_once_colon [OF nm] by simp
  note tok = lower_eq_iff_caseless [OF lower_literals(1)]
    lower_eq_iff_caseless [OF lower_literals(2)]
    lower_eq_iff_caseless [OF lower_literals(3)]
    lower_eq_iff_caseless [OF lower_literals(4)]
  show "handle_enable_plugin_command (nm @ '':'' @ tok) db =
          (if nm \<in> {''scheduler'', ''switch'', ''loadmanagement''}
           then db((nm, ''enabled'') \<mapsto>
                  PBool (caseless_eq tok ''true'' \<or> caseless_eq tok ''on''
                         \<or> caseless_eq tok ''1'' \<or> caseless_eq tok ''enabled''))
           else db)"
    unfolding handle_enable_plugin_command_def sp Let_def
    by (simp add: configDB_set_def tok)
qed

theorem enable_plugin_command_effect_witness:
  "handle_enable_plugin_command ''scheduler:true'' Map.empty =
     [(''scheduler'', ''enabled'') \<mapsto> PBool True]
   \<and> handle_enable_plugin_command ''switch:Off'' Map.empty =
     [(''switch'', ''enabled'') \<mapsto> PBool False]
   \<and> handle_enable_plugin_command ''hacker:true'' Map.empty = Map.empty
   \<and> handle_enable_plugin_command ''switch'' Map.empty = Map.empty"
  using enable_plugin_command_effect [of "''switch''" Map.empty "''scheduler''" "''true''"]
    enable_plugin_command_effect [of "''switch''" Map.empty "''switch''" "''Off''"]
    enable_plugin_command_effect [of "''switch''" Map.empty "''hacker''" "''true''"]
  by (simp add: caseless_eq_def char_eval)

text \<open>
  A message on the switch topic reaches its handler with the payload stripped of
  whitespace.
\<close>

lemma on_message_switch_example:
  "cdb (on_message env_example config_example stateDict_empty
         \<lparr>msg_topic = ''openeo/openeo_charger_1/command/switch/set'', msg_payload = '' on ''\<rparr>
         world_example) (''switch'', ''on'') = Some (PBool True)"
  by (simp add: on_message_def env_example_def config_example_def world_example_def
        py_strip_def is_space_def handle_switch_command_def configDB_set_def char_eval Let_def)

section \<open>Connection state\<close>

text \<open>
  C7 (disconnect). The disconnect callback sets connected to false and discovery_sent to
  false, whatever the two flags were before and whatever the return code is.
\<close>

theorem on_disconnect_resets:
  "connected (on_disconnect rc p) = False \<and> discovery_sent (on_disconnect rc p) = False"
  by (simp add: on_disconnect_def)

section \<open>The state document\<close>

lemma upto_7_16: "[7..16] = [7, 8, 9, 10, 11, 12, 13, 14, 15, 16::int]"
  by (simp add: upto_rec_numeral)

lemma state_id_interval:
  "(i::int) \<in> {7..16} \<longleftrightarrow> i \<in> set [7, 8, 9, 10, 11, 12, 13, 14, 15, 16]"
  unfolding upto_7_16 [symmetric] by (simp only: set_upto)

lemma state_payload_charging:
  "map_of (state_payload sd db now) ''charging_active'' =
     Some (PStr (if dict_get (eo_charger_state_id sd) 0 \<in> set [11, 12, 13, 14]
                 then ''true'' else ''false''))"
  by (simp add: state_payload_def Let_def)

lemma state_payload_vehicle:
  "map_of (state_payload sd db now) ''vehicle_connected'' =
     Some (PStr (if dict_get (eo_charger_state_id sd) 0 \<in> set [7, 8, 9, 10, 11, 12, 13, 14, 15, 16]
                 then ''true'' else ''false''))"
  by (simp add: state_payload_def Let_def)


lemma state_payload_mode:
  "map_of (state_payload sd db now) ''mode'' =
     Some (PStr (if truthy (configDB_get db ''switch'' ''enabled'' (PBool False))
                    \<and> \<not> truthy (configDB_get db ''scheduler'' ''enabled'' (PBool False))
                 then ''manual''
                 else if truthy (configDB_get db ''scheduler'' ''enabled'' (PBool False))
                    \<and> \<not> truthy (configDB_get db ''switch'' ''enabled'' (PBool False))
                 then ''schedule''
                 else ''off''))"
  by (simp add: state_payload_def Let_def)

lemma publish_state_connected:
  "connected p \<Longrightarrow>
     publish_calls (publish_state E cfg sd db now p) =
       publish_calls p @
         [\<lparr>pub_topic = ''openeo/'' @ device_id cfg @ ''/state'',
           pub_payload = PDict (state_payload sd db now), pub_retain = False\<rparr>]"
  by (simp add: publish_state_def try_publish_def Let_def)

text \<open>
  C3 (state document). In the document that the state publisher builds and, when
  connected, publishes to the state topic: charging_active is the string true exactly
  when the charger state id is one of 11, 12, 13, 14; vehicle_connected is true exactly
  when the id lies between 7 and 16; mode is manual when switch.enabled holds and
  scheduler.enabled does not, schedule when scheduler.enabled holds and switch.enabled
  does not, and off otherwise, both flags set included. In particular the id 12 gives
  charging_active true, and the id 3 gives vehicle_connected false and charging_active
  false.
\<close>

theorem state_document_flags:
  "map_of (state_payload sd db now) ''charging_active'' =
     Some (PStr (if dict_get (eo_charger_state_id sd) 0 \<in> {11, 12, 13, 14}
                 then ''true'' else ''false''))
   \<and> map_of (state_payload sd db now) ''vehicle_connected'' =
     Some (PStr (if dict_get (eo_charger_state_id sd) 0 \<in> {7..16}
                 then ''true'' else ''false''))
   \<and> map_of (state_payload sd db now) ''mode'' =
     Some (PStr (if truthy (configDB_get db ''switch'' ''enabled'' (PBool False))
                    \<and> \<not> truthy (configDB_get db ''scheduler'' ''enabled'' (PBool False))
                 then ''manual''
                 else if truthy (configDB_get db ''scheduler'' ''enabled'' (PBool False))
                    \<and> \<not> truthy (configDB_get db ''switch'' ''enabled'' (PBool False))
                 then ''schedule''
                 else ''off''))
   \<and> (connected p \<longrightarrow>
        publish_calls (publish_state E cfg sd db now p) =
          publish_calls p @
            [\<lparr>pub_topic = ''openeo/'' @ device_id cfg @ ''/state'',
              pub_payload = PDict (state_payload sd db now), pub_retain = False\<rparr>])
   \<and> (eo_charger_state_id sd = Some 12 \<longrightarrow>
        map_of (state_payload sd db now) ''charging_active'' = Some (PStr ''true''))
   \<and> (eo_charger_state_id sd = Some 3 \<longrightarrow>
        map_of (state_payload sd db now) ''vehicle_connected'' = Some (PStr ''false'')
        \<and> map_of (state_payload sd db now) ''charging_active'' = Some (PStr ''false''))"
proof (intro conjI impI)
  show "map_of (state_payload sd db now) ''charging_active'' =
     Some (PStr (if dict_get (eo_charger_state_id sd) 0 \<in> {11, 12, 13, 14}
                 then ''true'' else ''false''))"
    unfolding state_payload_charging by simp
  show "map_of (state_payload sd db now) ''vehicle_connected'' =
     Some (PStr (if dict_get (eo_charger_state_id sd) 0 \<in> {7..16}
                 then ''true'' else ''false''))"
    unfolding state_payload_vehicle state_id_interval ..
  show "map_of (state_payload sd db now) ''mode'' =
     Some (PStr (if truthy (configDB_get db ''switch'' ''enabled'' (PBool False))
                    \<and> \<not> truthy (configDB_get db ''scheduler'' ''enabled'' (PBool False))
                 then ''manual''
                 else if truthy (configDB_get db ''scheduler'' ''enabled'' (PBool False))
                    \<and> \<not> truthy (configDB_get db ''switch'' ''enabled'' (PBool False))
                 then ''schedule''
                 else ''off''))"
    by (rule state_payload_mode)
next
  assume "connected p"
  then show "publish_calls (publish_state E cfg sd db now p) =
          publish_calls p @
            [\<lparr>pub_topic = ''openeo/'' @ device_id cfg @ ''/state'',
              pub_payload = PDict (state_payload sd db now), pub_retain = False\<rparr>]"
    by (rule publish_state_connected)
next
  assume "eo_charger_state_id sd = Some 12"
  then show "map_of (state_payload sd db now) ''charging_active'' = Some (PStr ''true'')"
    unfolding state_payload_charging by (simp add: dict_get_def)
next
  assume a: "eo_charger_state_id sd = Some 3"
  show "map_of (state_payload sd db now) ''vehicle_connected'' = Some (PStr ''false'')"
    unfolding state_payload_vehicle using a by (simp add: dict_get_def)
  show "map_of (state_payload sd db now) ''charging_active'' = Some (PStr ''false'')"
    unfolding state_payload_charging using a by (simp add: dict_get_def)
qed

theorem state_document_flags_witness:
  "map_of (state_payload (stateDict_empty\<lparr>eo_charger_state_id := Some 12\<rparr>)
            [(''switch'', ''enabled'') \<mapsto> PBool True] 0) ''charging_active'' = Some (PStr ''true'')
   \<and> map_of (state_payload (stateDict_empty\<lparr>eo_charger_state_id := Some 12\<rparr>)
            [(''switch'', ''enabled'') \<mapsto> PBool True] 0) ''vehicle_connected'' = Some (PStr ''true'')
   \<and> map_of (state_payload (stateDict_empty\<lparr>eo_charger_state_id := Some 12\<rparr>)
            [(''switch'', ''enabled'') \<mapsto> PBool True] 0) ''mode'' = Some (PStr ''manual'')
   \<and> map_of (state_payload (stateDict_empty\<lparr>eo_charger_state_id := Some 12\<rparr>)
            [(''switch'', ''enabled'') \<mapsto> PBool True, (''scheduler'', ''enabled'') \<mapsto> PBool True] 0)
         ''mode'' = Some (PStr ''off'')
   \<and> map_of (state_payload (stateDict_empty\<lparr>eo_charger_state_id := Some 3\<rparr>)
            [(''scheduler'', ''enabled'') \<mapsto> PBool True] 0) ''vehicle_connected'' = Some (PStr ''false'')
   \<and> map_of (state_payload (stateDict_empty\<lparr>eo_charger_state_id := Some 3\<rparr>)
            [(''scheduler'', ''enabled'') \<mapsto> PBool True] 0) ''mode'' = Some (PStr ''schedule'')
   \<and> map pub_topic (publish_calls
        (publish_state env_example config_example stateDict_empty Map.empty 0 plugin_connected)) =
       [''openeo/openeo_charger_1/state'']"
  using state_document_flags [of "stateDict_empty\<lparr>eo_charger_state_id := Some 12\<rparr>"
      "[(''switch'', ''enabled'') \<mapsto> PBool True]" 0 plugin_connected env_example config_example]
    state_document_flags [of "stateDict_empty\<lparr>eo_charger_state_id := Some 12\<rparr>"
      "[(''switch'', ''enabled'') \<mapsto> PBool True, (''scheduler'', ''enabled'') \<mapsto> PBool True]" 0
      plugin_connected env_example config_example]
    state_document_flags [of "stateDict_empty\<lparr>eo_charger_state_id := Some 3\<rparr>"
      "[(''scheduler'', ''enabled'') \<mapsto> PBool True]" 0 plugin_connected env_example config_example]
    state_document_flags [of stateDict_empty Map.empty 0 plugin_connected env_example config_example]
  by (simp add: stateDict_empty_def dict_get_def configDB_get_def plugin_connected_def
        init_plugin_def config_example_def)

section \<open>Discovery publication\<close>

lemma try_publish_calls [simp]: "publish_calls (try_publish E m p) = publish_calls p @ [m]"
  by (simp add: try_publish_def)

lemma try_publish_flags [simp]:
  "connected (try_publish E m p) = connected p"
  "discovery_sent (try_publish E m p) = discovery_sent p"
  "last_publish (try_publish E m p) = last_publish p"
  "pending_discovery (try_publish E m p) = pending_discovery p"
  "subscribe_calls (try_publish E m p) = subscribe_calls p"
  by (simp_all add: try_publish_def)

lemma fold_publish_entity_calls:
  "publish_calls (fold (publish_entity E pre dev info) es p) =
     publish_calls p @ map (discovery_message pre dev info) es"
  by (induction es arbitrary: p) (simp_all add: publish_entity_def)

lemma fold_publish_entity_flags:
  "discovery_sent (fold (publish_entity E pre dev info) es p) = discovery_sent p"
  "connected (fold (publish_entity E pre dev info) es p) = connected p"
  by (induction es arbitrary: p) (simp_all add: publish_entity_def)

lemma all_entities_length: "length (sensors dev @ control_entities E sd dev) = 15"
  by (simp add: sensors_def control_entities_def Let_def)

lemma discovery_messages_length:
  "length (map f (sensors dev @ control_entities E sd dev)) = 15"
  by (simp only: length_map all_entities_length)

lemma all_entities_ids:
  "map (\<lambda>e. (ent_component e, ent_object_id e)) (sensors dev @ control_entities E sd dev) =
     [(''sensor'', ''charger_state''), (''sensor'', ''amps_requested''),
      (''sensor'', ''amps_limit''), (''sensor'', ''power_delivered''),
      (''sensor'', ''power_requested''), (''sensor'', ''voltage''),
      (''sensor'', ''frequency''), (''sensor'', ''current_site''),
      (''sensor'', ''current_vehicle''), (''sensor'', ''current_solar''),
      (''binary_sensor'', ''vehicle_connected''), (''binary_sensor'', ''charging_active''),
      (''switch'', ''charger_switch''), (''number'', ''current_limit''),
      (''select'', ''charger_mode'')]"
  by (simp add: sensors_def control_entities_def Let_def)

lemma send_discovery_calls:
  "connected p \<Longrightarrow>
     publish_calls (send_discovery E cfg sd p) =
       publish_calls p @
         map (discovery_message (mqtt_discovery_prefix cfg) (device_id cfg) (get_device_info cfg sd))
             (sensors (device_id cfg) @ control_entities E sd (device_id cfg))"
  by (simp add: send_discovery_def Let_def fold_publish_entity_calls)

lemma send_discovery_flags:
  "connected p \<Longrightarrow> discovery_sent (send_discovery E cfg sd p)"
  "connected p \<Longrightarrow> connected (send_discovery E cfg sd p)"
  by (simp_all add: send_discovery_def Let_def fold_publish_entity_flags)


lemma fold_publish_entity_errors:
  assumes "\<And>calls m. publish_raises E calls m"
  shows "publish_errors (fold (publish_entity E pre dev info) es p) =
     publish_errors p @ map (discovery_message pre dev info) es"
  using assms by (induction es arbitrary: p) (simp_all add: publish_entity_def try_publish_def)

lemma discovery_topics:
  "map pub_topic (map (discovery_message pre dev info) es) =
     map (\<lambda>(c, oid). pre @ ''/'' @ c @ ''/'' @ dev @ ''/'' @ oid @ ''/config'')
         (map (\<lambda>e. (ent_component e, ent_object_id e)) es)"
  by (simp add: discovery_message_def Let_def)

lemma discovery_retained: "list_all pub_retain (map (discovery_message pre dev info) es)"
  by (simp add: discovery_message_def Let_def list_all_iff)

text \<open>The document published for the number entity, as an example of the catalog.\<close>

lemma number_entity_document:
  "entity_config dev info (control_entities E sd dev ! 1) =
     [(''name'', PStr ''Current Limit''),
      (''unique_id'', PStr (dev @ ''_current_limit'')),
      (''state_topic'', PStr (''openeo/'' @ dev @ ''/state'')),
      (''device'', info),
      (''value_template'', PStr ''{{ value_json.amps_limit }}''),
      (''unit_of_measurement'', PStr ''A''),
      (''device_class'', PStr ''current''),
      (''icon'', PStr ''mdi:current-ac''),
      (''command_topic'', PStr (''openeo/'' @ dev @ ''/command/current_limit/set'')),
      (''min'', PInt (MIN_CHARGING_CURRENT E)),
      (''max'', PInt (min (MAX_CHARGING_CURRENT E)
                        (dict_get (eo_overall_limit_current sd) (MAX_CHARGING_CURRENT E)))),
      (''step'', PInt 1)]"
  by (simp add: entity_config_def control_entities_def optional_fields_def Let_def)

text \<open>
  C6 (discovery). Run while connected, the discovery routine calls the client's publish
  exactly 15 times, each with the retained flag, on the topics
  prefix/component/device_id/object_id/config of the 10 sensors, 2 binary sensors, the
  switch, the number and the select, in this order, and ends with discovery_sent set.
  This holds whichever of the calls raise: a failure neither stops the loop nor keeps the
  flag from being set. The loop itself leaves discovery_sent as it was; the flag is set
  after it.
\<close>

theorem discovery_publishes_all:
  "(connected p \<longrightarrow>
      discovery_sent (send_discovery E cfg sd p)
    \<and> take (length (publish_calls p)) (publish_calls (send_discovery E cfg sd p)) = publish_calls p
    \<and> length (publish_calls (send_discovery E cfg sd p)) = length (publish_calls p) + 15
    \<and> list_all pub_retain
         (drop (length (publish_calls p)) (publish_calls (send_discovery E cfg sd p)))
    \<and> map pub_topic
         (drop (length (publish_calls p)) (publish_calls (send_discovery E cfg sd p))) =
       map (\<lambda>(c, oid). mqtt_discovery_prefix cfg @ ''/'' @ c @ ''/'' @ device_id cfg @ ''/''
                          @ oid @ ''/config'')
         [(''sensor'', ''charger_state''), (''sensor'', ''amps_requested''),
          (''sensor'', ''amps_limit''), (''sensor'', ''power_delivered''),
          (''sensor'', ''power_requested''), (''sensor'', ''voltage''),
          (''sensor'', ''frequency''), (''sensor'', ''current_site''),
          (''sensor'', ''current_vehicle''), (''sensor'', ''current_solar''),
          (''binary_sensor'', ''vehicle_connected''), (''binary_sensor'', ''charging_active''),
          (''switch'', ''charger_switch''), (''number'', ''current_limit''),
          (''select'', ''charger_mode'')])
   \<and> discovery_sent (fold (publish_entity E pre dev info) es p) = discovery_sent p"
proof (intro conjI impI)
  assume c: "connected p"
  let ?new = "map (discovery_message (mqtt_discovery_prefix cfg) (device_id cfg)
                    (get_device_info cfg sd))
                  (sensors (device_id cfg) @ control_entities E sd (device_id cfg))"
  have calls: "publish_calls (send_discovery E cfg sd p) = publish_calls p @ ?new"
    using c by (rule send_discovery_calls)
  show "discovery_sent (send_discovery E cfg sd p)"
    using c by (rule send_discovery_flags)
  show "take (length (publish_calls p)) (publish_calls (send_discovery E cfg sd p)) = publish_calls p"
    unfolding calls by simp
  show "length (publish_calls (send_discovery E cfg sd p)) = length (publish_calls p) + 15"
    unfolding calls by (simp only: length_append discovery_messages_length)
  have dr: "drop (length (publish_calls p)) (publish_calls (send_discovery E cfg sd p)) = ?new"
    unfolding calls by simp
  show "list_all pub_retain
         (drop (length (publish_calls p)) (publish_calls (send_discovery E cfg sd p)))"
    unfolding dr by (rule discovery_retained)
  show "map pub_topic
         (drop (length (publish_calls p)) (publish_calls (send_discovery E cfg sd p))) =
       map (\<lambda>(c, oid). mqtt_discovery_prefix cfg @ ''/'' @ c @ ''/'' @ device_id cfg @ ''/''
                          @ oid @ ''/config'')
         [(''sensor'', ''charger_state''), (''sensor'', ''amps_requested''),
          (''sensor'', ''amps_limit''), (''sensor'', ''power_delivered''),
          (''sensor'', ''power_requested''), (''sensor'', ''voltage''),
          (''sensor'', ''frequency''), (''sensor'', ''current_site''),
          (''sensor'', ''current_vehicle''), (''sensor'', ''current_solar''),
          (''binary_sensor'', ''vehicle_connected''), (''binary_sensor'', ''charging_active''),
          (''switch'', ''charger_switch''), (''number'', ''current_limit''),
          (''select'', ''charger_mode'')]"
    unfolding dr discovery_topics all_entities_ids ..
next
  show "discovery_sent (fold (publish_entity E pre dev info) es p) = discovery_sent p"
    by (rule fold_publish_entity_flags)
qed

lemma env_failing_raises: "publish_raises env_failing calls m"
  by (simp add: env_failing_def env_example_def)

lemma plugin_connected_fields:
  "connected plugin_connected" "publish_calls plugin_connected = []"
  "publish_errors plugin_connected = []" "\<not> discovery_sent plugin_connected"
  by (simp_all add: plugin_connected_def init_plugin_def)

lemma send_discovery_errors:
  assumes "\<And>calls m. publish_raises E calls m" and "connected p"
  shows "length (publish_errors (send_discovery E cfg sd p)) = length (publish_errors p) + 15"
proof -
  have "publish_errors (send_discovery E cfg sd p) =
      publish_errors p @
        map (discovery_message (mqtt_discovery_prefix cfg) (device_id cfg) (get_device_info cfg sd))
            (sensors (device_id cfg) @ control_entities E sd (device_id cfg))"
    using assms(2)
    by (simp add: send_discovery_def Let_def fold_publish_entity_errors [OF assms(1)])
  then show ?thesis
    by (simp only: length_append discovery_messages_length)
qed

theorem discovery_publishes_all_witness:
  "discovery_sent (send_discovery env_failing config_example stateDict_empty plugin_connected)
   \<and> length (publish_calls
        (send_discovery env_failing config_example stateDict_empty plugin_connected)) = 15
   \<and> length (publish_errors
        (send_discovery env_failing config_example stateDict_empty plugin_connected)) = 15
   \<and> list_all pub_retain (publish_calls
        (send_discovery env_failing config_example stateDict_empty plugin_connected))
   \<and> map pub_topic (publish_calls
        (send_discovery env_failing config_example stateDict_empty plugin_connected)) =
       [''homeassistant/sensor/openeo_charger_1/charger_state/config'',
        ''homeassistant/sensor/openeo_charger_1/amps_requested/config'',
        ''homeassistant/sensor/openeo_charger_1/amps_limit/config'',
        ''homeassistant/sensor/openeo_charger_1/power_delivered/config'',
        ''homeassistant/sensor/openeo_charger_1/power_requested/config'',
        ''homeassistant/sensor/openeo_charger_1/voltage/config'',
        ''homeassistant/sensor/openeo_charger_1/frequency/config'',
        ''homeassistant/sensor/openeo_charger_1/current_site/config'',
        ''homeassistant/sensor/openeo_charger_1/current_vehicle/config'',
        ''homeassistant/sensor/openeo_charger_1/current_solar/config'',
        ''homeassistant/binary_sensor/openeo_charger_1/vehicle_connected/config'',
        ''homeassistant/binary_sensor/openeo_charger_1/charging_active/config'',
        ''homeassistant/switch/openeo_charger_1/charger_switch/config'',
        ''homeassistant/number/openeo_charger_1/current_limit/config'',
        ''homeassistant/select/openeo_charger_1/charger_mode/config'']"
  using discovery_publishes_all [of plugin_connected env_failing config_example stateDict_empty]
    send_discovery_errors [of env_failing plugin_connected config_example stateDict_empty,
      OF env_failing_raises plugin_connected_fields(1)]
  by (simp add: plugin_connected_fields config_example_def)

text \<open>
  C9 (idempotence of discovery). Run twice while connected, under the same settings,
  limits and shared state, the discovery routine publishes the same 15 messages the
  second time as the first: the same topics, the same documents, the same flag, and
  nothing more.
\<close>

theorem discovery_idempotent:
  "connected p \<longrightarrow>
     drop (length (publish_calls (send_discovery E cfg sd p)))
          (publish_calls (send_discovery E cfg sd (send_discovery E cfg sd p)))
       = drop (length (publish_calls p)) (publish_calls (send_discovery E cfg sd p))
   \<and> length (drop (length (publish_calls p)) (publish_calls (send_discovery E cfg sd p))) = 15
   \<and> length (publish_calls (send_discovery E cfg sd (send_discovery E cfg sd p))) =
       length (publish_calls p) + 30"
proof
  assume c: "connected p"
  let ?new = "map (discovery_message (mqtt_discovery_prefix cfg) (device_id cfg)
                    (get_device_info cfg sd))
                  (sensors (device_id cfg) @ control_entities E sd (device_id cfg))"
  have len: "length ?new = 15"
    by (rule discovery_messages_length)
  have c1: "connected (send_discovery E cfg sd p)"
    using c by (rule send_discovery_flags)
  have calls1: "publish_calls (send_discovery E cfg sd p) = publish_calls p @ ?new"
    using c by (rule send_discovery_calls)
  have calls2: "publish_calls (send_discovery E cfg sd (send_discovery E cfg sd p)) =
      publish_calls (send_discovery E cfg sd p) @ ?new"
    using c1 by (rule send_discovery_calls)
  have d1: "drop (length (publish_calls p)) (publish_calls (send_discovery E cfg sd p)) = ?new"
    unfolding calls1 by simp
  have d2: "drop (length (publish_calls (send_discovery E cfg sd p)))
          (publish_calls (send_discovery E cfg sd (send_discovery E cfg sd p))) = ?new"
    unfolding calls2 by simp
  have l2: "length (publish_calls (send_discovery E cfg sd (send_discovery E cfg sd p))) =
       length (publish_calls p) + 30"
    unfolding calls2 calls1 using len by (simp only: length_append) 
  show "drop (length (publish_calls (send_discovery E cfg sd p)))
          (publish_calls (send_discovery E cfg sd (send_discovery E cfg sd p)))
       = drop (length (publish_calls p)) (publish_calls (send_discovery E cfg sd p))
   \<and> length (drop (length (publish_calls p)) (publish_calls (send_discovery E cfg sd p))) = 15
   \<and> length (publish_calls (send_discovery E cfg sd (send_discovery E cfg sd p))) =
       length (publish_calls p) + 30"
    using d1 d2 len l2 by (simp only: simp_thms)
qed

theorem discovery_idempotent_witness:
  "drop (length (publish_calls
           (send_discovery env_example config_example stateDict_empty plugin_connected)))
        (publish_calls (send_discovery env_example config_example stateDict_empty
           (send_discovery env_example config_example stateDict_empty plugin_connected)))
     = publish_calls (send_discovery env_example config_example stateDict_empty plugin_connected)
   \<and> length (publish_calls
        (send_discovery env_example config_example stateDict_empty plugin_connected)) = 15
   \<and> length (publish_calls (send_discovery env_example config_example stateDict_empty
        (send_discovery env_example config_example stateDict_empty plugin_connected))) = 30"
  using discovery_idempotent [of plugin_connected env_example config_example stateDict_empty]
  by (clarsimp simp add: plugin_connected_fields)

section \<open>Publishing and the poll hook\<close>

lemma publish_state_disconnected: "\<not> connected p \<Longrightarrow> publish_state E cfg sd db now p = p"
  by (simp add: publish_state_def)

lemma on_message_plug: "plug (on_message E cfg sd msg w) = plug w"
  by (simp add: on_message_def Let_def split: option.split)

lemma on_connect_calls: "publish_calls (on_connect cfg rc p) = publish_calls p"
  by (simp add: on_connect_def subscribe_to_commands_def Let_def)

lemma send_discovery_disconnected: "\<not> connected p \<Longrightarrow> send_discovery E cfg sd p = p"
  by (simp add: send_discovery_def)

lemma poll_disconnected_calls:
  "\<not> connected p \<Longrightarrow> publish_calls (fst (poll E cfg sd db current_time now p)) = publish_calls p"
  by (simp add: poll_def Let_def publish_state_disconnected)

lemma step_disconnected_calls:
  "\<not> connected (plug w) \<Longrightarrow>
     publish_calls (plug (step E cfg sd ev w)) = publish_calls (plug w)"
proof (cases ev)
  case (Connect rc)
  then show ?thesis by (simp add: on_connect_calls)
next
  case (Disconnect rc)
  then show ?thesis by (simp add: on_disconnect_def)
next
  case (Message msg)
  then show ?thesis by (simp add: on_message_plug)
next
  case RunDiscovery
  assume "\<not> connected (plug w)"
  then show ?thesis using RunDiscovery by (simp add: send_discovery_disconnected)
next
  case (Poll current_time now)
  assume "\<not> connected (plug w)"
  then show ?thesis using Poll by (simp add: poll_disconnected_calls)
qed

text \<open>
  C8 (publishing invariant). The state publisher returns without doing anything when
  connected is false. Handling a command message leaves the plugin object, its trace of
  publish calls included, as it was: its only effect is on the configuration store. And
  over every event, no call of publish is made from a state in which connected is false.
\<close>

theorem publish_only_while_connected:
  "(\<not> connected p \<longrightarrow> publish_state E cfg sd db now p = p)
   \<and> plug (on_message E cfg sd msg w) = plug w
   \<and> (\<not> connected (plug w) \<longrightarrow>
        publish_calls (plug (step E cfg sd ev w)) = publish_calls (plug w))"
  using publish_state_disconnected [of p E cfg sd db now] on_message_plug [of E cfg sd msg w]
    step_disconnected_calls [of w E cfg sd ev]
  by blast

theorem publish_only_while_connected_witness:
  "publish_state env_example config_example stateDict_empty Map.empty 0 init_plugin = init_plugin
   \<and> plug (on_message env_example config_example stateDict_empty
        \<lparr>msg_topic = ''openeo/openeo_charger_1/command/switch/set'', msg_payload = ''ON''\<rparr>
        (world_example\<lparr>plug := plugin_connected\<rparr>)) = plugin_connected
   \<and> publish_calls (plug (step env_example config_example stateDict_empty (Poll 10 10)
        world_example)) = []"
  using publish_only_while_connected [of init_plugin env_example config_example stateDict_empty
      Map.empty 0 "\<lparr>msg_topic = ''openeo/openeo_charger_1/command/switch/set'', msg_payload = ''ON''\<rparr>"
      "world_example\<lparr>plug := plugin_connected\<rparr>"]
    publish_only_while_connected [of init_plugin env_example config_example stateDict_empty
      Map.empty 0 _ world_example "Poll 10 10"]
  by (simp add: world_example_def init_plugin_def)

text \<open>
  C10 (poll). With the module enabled and the MQTT library available, a poll at which the
  time since last_publish has reached publish_interval sets last_publish to the current
  time, also when connected is false. In that case nothing is published, and since the
  timer has advanced, a poll that follows a reconnection by less than publish_interval
  publishes no state either: the next state message waits for the interval to pass.
\<close>

theorem poll_advances_timer:
  "MQTT_AVAILABLE E \<and> enabled cfg
     \<and> current_time - last_publish p \<ge> of_int (publish_interval cfg) \<longrightarrow>
     last_publish (fst (poll E cfg sd db current_time now p)) = current_time
     \<and> (\<not> connected p \<longrightarrow>
          publish_calls (fst (poll E cfg sd db current_time now p)) = publish_calls p
          \<and> (\<forall>t2 now2. t2 - current_time < of_int (publish_interval cfg) \<longrightarrow>
                connected (fst (poll E cfg sd db t2 now2
                   (on_connect cfg 0 (fst (poll E cfg sd db current_time now p)))))
                \<and> publish_calls (fst (poll E cfg sd db t2 now2
                   (on_connect cfg 0 (fst (poll E cfg sd db current_time now p)))))
                  = publish_calls p))"
  by (auto simp add: poll_def Let_def publish_state_def on_connect_def subscribe_to_commands_def)

theorem poll_advances_timer_witness:
  "last_publish (fst (poll env_example config_example stateDict_empty Map.empty 100 100
       init_plugin)) = 100
   \<and> publish_calls (fst (poll env_example config_example stateDict_empty Map.empty 100 100
       init_plugin)) = []
   \<and> connected (fst (poll env_example config_example stateDict_empty Map.empty 104 104
       (on_connect config_example 0
          (fst (poll env_example config_example stateDict_empty Map.empty 100 100 init_plugin)))))
   \<and> publish_calls (fst (poll env_example config_example stateDict_empty Map.empty 104 104
       (on_connect config_example 0
          (fst (poll env_example config_example stateDict_empty Map.empty 100 100 init_plugin)))))
     = []"
  using poll_advances_timer [of env_example config_example 100 init_plugin stateDict_empty
      Map.empty 100]
  by (simp add: env_example_def config_example_def init_plugin_def)

end
